theory Spec2Isabelle
  imports Main
begin

section \<open>Errors (pkg/errors)\<close>

text \<open>
  A Go \<open>error\<close> value is either an \<open>*AppError\<close> (code, message, details, wrapped
  internal error) or some other error, of which only the text of \<open>Error()\<close> matters
  here. The captured program counters of \<open>WithStack\<close> are never serialised
  (\<open>json:"-"\<close>) and are left out.
\<close>

datatype jval = JStr string | JInt int

datatype error = AppError int string string "error option" | PlainError string

fun Error :: "error \<Rightarrow> string" where
  "Error (PlainError s) = s"
| "Error (AppError c m d None) = m"
| "Error (AppError c m d (Some e)) = m @ '': '' @ Error e"

definition StatusOK :: int where "StatusOK = 200"
definition StatusUnauthorized :: int where "StatusUnauthorized = 401"
definition StatusNotFound :: int where "StatusNotFound = 404"
definition StatusMethodNotAllowed :: int where "StatusMethodNotAllowed = 405"
definition StatusInternalServerError :: int where "StatusInternalServerError = 500"

definition NewInternalError :: "string \<Rightarrow> error \<Rightarrow> error" where
  "NewInternalError message err = AppError StatusInternalServerError message [] (Some err)"

definition NewUnauthorizedError :: "string \<Rightarrow> error" where
  "NewUnauthorizedError message = AppError StatusUnauthorized message [] None"

definition ErrorResponse :: "error \<Rightarrow> int \<times> (string \<rightharpoonup> jval)" where
  "ErrorResponse err =
     (case err of
        AppError c m d i \<Rightarrow>
          (let response = [''error'' \<mapsto> JStr m, ''code'' \<mapsto> JInt c]
           in (c, if d \<noteq> [] then response(''details'' \<mapsto> JStr d) else response))
      | PlainError s \<Rightarrow>
          (StatusInternalServerError,
           [''error'' \<mapsto> JStr ''Internal server error'',
            ''code'' \<mapsto> JInt StatusInternalServerError]))"

section \<open>Requests, the response writer and the request context\<close>

text \<open>
  An inbound request as the handlers read it: method, URL path, raw query, the header
  map (first value of each header; \<open>None\<close> when the header is absent) and the
  address \<open>ClientIP()\<close> reports.
\<close>

record http_request =
  Method :: string
  Path :: string
  RawQuery :: string
  Header :: "string \<rightharpoonup> string"
  RemoteIP :: string

text \<open>
  What has been written to the client: the bodies are kept as values, a JSON object
  for \<open>c.JSON\<close> and \<open>json.Marshal\<close>, raw bytes for a relayed upstream body.
\<close>

datatype chunk = JSON "string \<rightharpoonup> jval" | Bytes string

text \<open>
  gin's \<open>responseWriter\<close> (the writer of the gin library): \<open>status\<close>
  starts at \<open>defaultStatus = http.StatusOK\<close>, \<open>size\<close> at \<open>noWritten\<close>;
  \<open>written\<close> stands for \<open>size \<noteq> noWritten\<close>. \<open>WriteHeader\<close> records a
  positive code only while nothing has been written; \<open>Write\<close> sends the header
  first.
\<close>

record responseWriter =
  status :: int
  written :: bool
  headers :: "string \<rightharpoonup> string"
  body :: "chunk list"

definition defaultStatus :: int where
  "defaultStatus = StatusOK"

definition reset :: responseWriter where
  "reset = \<lparr>status = defaultStatus, written = False, headers = Map.empty, body = []\<rparr>"

definition WriteHeader :: "int \<Rightarrow> responseWriter \<Rightarrow> responseWriter" where
  "WriteHeader code w =
     (if code > 0 \<and> status w \<noteq> code then (if written w then w else w\<lparr>status := code\<rparr>)
      else w)"

definition WriteHeaderNow :: "responseWriter \<Rightarrow> responseWriter" where
  "WriteHeaderNow w = (if \<not> written w then w\<lparr>written := True\<rparr> else w)"

definition Write :: "chunk \<Rightarrow> responseWriter \<Rightarrow> responseWriter" where
  "Write data w = (let w' = WriteHeaderNow w in w'\<lparr>body := body w' @ [data]\<rparr>)"

definition Header_Set :: "string \<Rightarrow> string \<Rightarrow> responseWriter \<Rightarrow> responseWriter" where
  "Header_Set key v w = w\<lparr>headers := (headers w)(key \<mapsto> v)\<rparr>"

definition Header_Del :: "string \<Rightarrow> responseWriter \<Rightarrow> responseWriter" where
  "Header_Del key w = w\<lparr>headers := (headers w)(key := None)\<rparr>"

text \<open>
  Structured log events handed to the logger: level, message and the key/value
  fields.
\<close>

datatype Level = InfoLevel | WarnLevel | ErrorLevel

record Event =
  level :: Level
  message :: string
  attrs :: "string \<rightharpoonup> jval"

text \<open>
  The per-request \<open>gin.Context\<close>, together with what the request does to the world
  around it: the events logged, the time read by \<open>time.Now()\<close>, and the requests
  sent to upstreams (target URL and request). \<open>aborted\<close> stands for
  \<open>index \<ge> abortIndex\<close>.
\<close>

record Context =
  Request :: http_request
  Writer :: responseWriter
  Keys :: "string \<rightharpoonup> string"
  aborted :: bool
  log :: "Event list"
  clock :: int
  outbound :: "(string \<times> http_request) list"

definition new_context :: "http_request \<Rightarrow> int \<Rightarrow> Context" where
  "new_context req now =
     \<lparr>Request = req, Writer = reset, Keys = Map.empty, aborted = False, log = [],
      clock = now, outbound = []\<rparr>"

definition GetHeader :: "Context \<Rightarrow> string \<Rightarrow> string" where
  "GetHeader c key = (case Header (Request c) key of None \<Rightarrow> [] | Some v \<Rightarrow> v)"

definition SetHeader :: "string \<Rightarrow> string \<Rightarrow> Context \<Rightarrow> Context" where
  "SetHeader key v c =
     (if v = [] then c\<lparr>Writer := Header_Del key (Writer c)\<rparr>
      else c\<lparr>Writer := Header_Set key v (Writer c)\<rparr>)"

definition Set :: "string \<Rightarrow> string \<Rightarrow> Context \<Rightarrow> Context" where
  "Set key v c = c\<lparr>Keys := (Keys c)(key \<mapsto> v)\<rparr>"

definition GetString :: "Context \<Rightarrow> string \<Rightarrow> string" where
  "GetString c key = (case Keys c key of None \<Rightarrow> [] | Some v \<Rightarrow> v)"

definition Abort :: "Context \<Rightarrow> Context" where
  "Abort c = c\<lparr>aborted := True\<rparr>"

definition ClientIP :: "Context \<Rightarrow> string" where
  "ClientIP c = RemoteIP (Request c)"

definition UserAgent :: "Context \<Rightarrow> string" where
  "UserAgent c = GetHeader c ''User-Agent''"

definition bodyAllowedForStatus :: "int \<Rightarrow> bool" where
  "bodyAllowedForStatus code =
     (if 100 \<le> code \<and> code \<le> 199 then False
      else if code = 204 then False
      else if code = 304 then False
      else True)"

definition writeContentType :: "string \<Rightarrow> responseWriter \<Rightarrow> responseWriter" where
  "writeContentType v w =
     (case headers w ''Content-Type'' of None \<Rightarrow> Header_Set ''Content-Type'' v w | Some _ \<Rightarrow> w)"

text \<open>\<open>c.JSON(code, obj)\<close>: set the status, the content type, and write the object.\<close>

definition c_JSON :: "int \<Rightarrow> (string \<rightharpoonup> jval) \<Rightarrow> Context \<Rightarrow> Context" where
  "c_JSON code obj c =
     (let w1 = WriteHeader code (Writer c);
          w2 = writeContentType ''application/json; charset=utf-8'' w1
      in if \<not> bodyAllowedForStatus code then c\<lparr>Writer := WriteHeaderNow w2\<rparr>
         else c\<lparr>Writer := Write (JSON obj) w2\<rparr>)"

definition emit :: "Level \<Rightarrow> string \<Rightarrow> (string \<rightharpoonup> jval) \<Rightarrow> Context \<Rightarrow> Context" where
  "emit lvl msg flds c = c\<lparr>log := log c @ [\<lparr>level = lvl, message = msg, attrs = flds\<rparr>]\<rparr>"

definition LogError :: "error \<Rightarrow> (string \<rightharpoonup> jval) \<Rightarrow> Context \<Rightarrow> Context" where
  "LogError err context c = emit ErrorLevel ''Application error'' (context(''error'' \<mapsto> JStr (Error err))) c"

definition LogInfo :: "string \<Rightarrow> (string \<rightharpoonup> jval) \<Rightarrow> Context \<Rightarrow> Context" where
  "LogInfo msg context c = emit InfoLevel msg context c"

text \<open>
  A handler returns or panics; a panic carries the panic value and the context as the
  handler left it. A middleware receives the rest of the chain, which it runs where
  the source calls \<open>c.Next()\<close>.
\<close>

datatype outcome = Normal Context | Panic string Context

type_synonym HandlerFunc = "Context \<Rightarrow> outcome"
type_synonym middleware = "HandlerFunc \<Rightarrow> HandlerFunc"

section \<open>Token validation (middleware/auth.go)\<close>

text \<open>
  A Go call returns its value, returns an error, or panics. The slice expression
  \<open>s[:n]\<close> panics when \<open>n\<close> exceeds \<open>len(s)\<close>; \<open>len\<close> counts bytes, as
  \<open>length\<close> does on a \<open>string\<close>.
\<close>

datatype 'a result = Ok 'a | Err error | Panicked string

definition slice_to :: "string \<Rightarrow> nat \<Rightarrow> string result" where
  "slice_to s n = (if n \<le> length s then Ok (take n s) else Panicked ''slice bounds out of range'')"

definition validateToken :: "string \<Rightarrow> string \<Rightarrow> string result" where
  "validateToken tokenString jwtSecret =
     (if tokenString = [] then Err (NewUnauthorizedError ''Empty token'')
      else if length tokenString < 10 then Err (NewUnauthorizedError ''Invalid token format'')
      else (case slice_to tokenString 8 of
              Ok prefix \<Rightarrow> Ok (''user-'' @ prefix)
            | Err e \<Rightarrow> Err e
            | Panicked p \<Rightarrow> Panicked p))"

section \<open>The middleware (internal/middleware, util.Logger.GinLogger)\<close>

text \<open>
  \<open>RecoveryMiddleware\<close>: the deferred function runs when the rest of the chain
  panics. \<open>stack\<close> is what \<open>debug.Stack()\<close> returns there.
\<close>

definition RecoveryMiddleware :: "string \<Rightarrow> middleware" where
  "RecoveryMiddleware stack next c =
     (case next c of
        Normal c' \<Rightarrow> Normal c'
      | Panic err c' \<Rightarrow>
          (let c1 = emit ErrorLevel ''Panic recovered''
                      [''error'' \<mapsto> JStr err,
                       ''stack'' \<mapsto> JStr stack,
                       ''path'' \<mapsto> JStr (Path (Request c')),
                       ''method'' \<mapsto> JStr (Method (Request c')),
                       ''client_ip'' \<mapsto> JStr (ClientIP c'),
                       ''user_agent'' \<mapsto> JStr (UserAgent c')] c';
               c2 = (if status (Writer c1) = 0
                     then c_JSON StatusInternalServerError
                            [''error'' \<mapsto> JStr ''Internal server error'',
                             ''code'' \<mapsto> JInt StatusInternalServerError] c1
                     else c1)
           in Normal (Abort c2)))"

text \<open>
  \<open>RequestIDMiddleware\<close>: \<open>fresh\<close> is the string \<open>uuid.New().String()\<close> yields
  for this request; it is used only when no id came with the request.
\<close>

definition RequestIDMiddleware :: "string \<Rightarrow> middleware" where
  "RequestIDMiddleware fresh next c =
     (let requestID = GetHeader c ''X-Request-ID'';
          requestID = (if requestID = [] then fresh else requestID)
      in next (SetHeader ''X-Request-ID'' requestID (Set ''request_id'' requestID c)))"

definition GinLogger :: middleware where
  "GinLogger next c =
     (let start = clock c;
          path = Path (Request c);
          raw = RawQuery (Request c)
      in case next c of
           Panic err c' \<Rightarrow> Panic err c'
         | Normal c' \<Rightarrow>
             (let end = clock c';
                  latency = end - start;
                  path = (if raw \<noteq> [] then path @ ''?'' @ raw else path);
                  lvl = (if status (Writer c') \<ge> 400 then ErrorLevel else InfoLevel)
              in Normal (emit lvl ''HTTP request''
                           [''method'' \<mapsto> JStr (Method (Request c')),
                            ''path'' \<mapsto> JStr path,
                            ''status'' \<mapsto> JInt (status (Writer c')),
                            ''ip'' \<mapsto> JStr (ClientIP c'),
                            ''user_agent'' \<mapsto> JStr (UserAgent c'),
                            ''latency'' \<mapsto> JInt latency,
                            ''request_id'' \<mapsto> JStr (GetString c' ''request_id'')] c')))"

definition LoggingMiddleware :: middleware where
  "LoggingMiddleware = GinLogger"

definition publicEndpoints :: "string list" where
  "publicEndpoints = [''/api/v1/auth/login'', ''/api/v1/auth/register'', ''/health'']"

fun isPublicEndpoint_loop :: "string list \<Rightarrow> string \<Rightarrow> bool" where
  "isPublicEndpoint_loop [] path = False"
| "isPublicEndpoint_loop (endpoint # rest) path =
     (if path = endpoint then True else isPublicEndpoint_loop rest path)"

definition isPublicEndpoint :: "string \<Rightarrow> bool" where
  "isPublicEndpoint path = isPublicEndpoint_loop publicEndpoints path"

text \<open>
  \<open>strings.Split(s, sep)\<close> for a one-byte separator: the pieces between the
  separators, one piece more than there are separators.
\<close>

fun Split :: "string \<Rightarrow> char \<Rightarrow> string list" where
  "Split [] sep = [[]]"
| "Split (x # xs) sep =
     (if x = sep then [] # Split xs sep
      else (case Split xs sep of
              [] \<Rightarrow> [[x]]
            | p # ps \<Rightarrow> (x # p) # ps))"

definition AuthMiddleware :: "string \<Rightarrow> middleware" where
  "AuthMiddleware jwtSecret next c =
     (if isPublicEndpoint (Path (Request c)) then next c
      else
        (let authHeader = GetHeader c ''Authorization''
         in if authHeader = []
            then Normal (Abort (c_JSON StatusUnauthorized
                   [''error'' \<mapsto> JStr ''Authorization header required'',
                    ''code'' \<mapsto> JInt StatusUnauthorized] c))
            else
              (let parts = Split authHeader CHR '' ''
               in if length parts \<noteq> 2 \<or> parts ! 0 \<noteq> ''Bearer''
                  then Normal (Abort (c_JSON StatusUnauthorized
                         [''error'' \<mapsto> JStr ''Invalid authorization header format'',
                          ''code'' \<mapsto> JInt StatusUnauthorized] c))
                  else
                    (let tokenString = parts ! 1
                     in case validateToken tokenString jwtSecret of
                          Panicked p \<Rightarrow> Panic p c
                        | Err err \<Rightarrow>
                            Normal (Abort (c_JSON StatusUnauthorized
                              [''error'' \<mapsto> JStr ''Invalid or expired token'',
                               ''code'' \<mapsto> JInt StatusUnauthorized]
                              (emit WarnLevel ''Invalid token''
                                 [''path'' \<mapsto> JStr (Path (Request c))] c)))
                        | Ok userID \<Rightarrow> next (Set ''user_id'' userID c)))))"

section \<open>The upstream proxy (internal/handler)\<close>

text \<open>
  An upstream response: status code, status line text and the body as a stream that
  is consumed by reading. \<open>io.ReadAll\<close> returns the bytes that arrive and the
  error, if any, that ended the stream early, and leaves the stream at its end;
  \<open>bytes.NewReader\<close> gives a stream over bytes already in memory.
\<close>

record body_stream =
  pending :: string
  fault :: "string option"

record Response =
  StatusCode :: int
  StatusText :: string
  Body :: body_stream

definition ReadAll :: "body_stream \<Rightarrow> (string \<times> string option) \<times> body_stream" where
  "ReadAll b = ((pending b, fault b), \<lparr>pending = [], fault = None\<rparr>)"

definition NewReader :: "string \<Rightarrow> body_stream" where
  "NewReader bytes = \<lparr>pending = bytes, fault = None\<rparr>"

text \<open>
  What the backend does with a forwarded request: it answers after some time, the
  connection fails after some time, or nothing ever comes back. The round trip runs
  under \<open>context.WithTimeout(\<dots>, p.timeout)\<close>: when the deadline passes first it
  ends there with the context's error. It yields the time spent and either the
  transport error or the response.
\<close>

datatype upstream = Replies nat Response | Fails nat string | Silent

definition DeadlineExceeded :: error where
  "DeadlineExceeded = PlainError ''context deadline exceeded''"

definition RoundTrip :: "int \<Rightarrow> upstream \<Rightarrow> nat \<times> (error + Response)" where
  "RoundTrip tmo u =
     (case u of
        Replies t r \<Rightarrow> (if int t < tmo then (t, Inr r) else (nat tmo, Inl DeadlineExceeded))
      | Fails t e \<Rightarrow> (if int t < tmo then (t, Inl (PlainError e)) else (nat tmo, Inl DeadlineExceeded))
      | Silent \<Rightarrow> (nat tmo, Inl DeadlineExceeded))"

record ServiceProxy =
  target :: string
  timeout :: int

text \<open>The closure \<open>proxy.ErrorHandler\<close> of \<open>NewServiceProxy\<close>.\<close>

definition ErrorHandler :: "string \<Rightarrow> error \<Rightarrow> Context \<Rightarrow> Context" where
  "ErrorHandler targetURL err c =
     (let c1 = LogError err
                 [''url'' \<mapsto> JStr targetURL,
                  ''method'' \<mapsto> JStr (Method (Request c)),
                  ''path'' \<mapsto> JStr (Path (Request c))] c;
          (statusCode, response) = ErrorResponse (NewInternalError ''Service unavailable'' err);
          w1 = Header_Set ''Content-Type'' ''application/json'' (Writer c1);
          w2 = WriteHeader statusCode w1
      in c1\<lparr>Writer := Write (JSON response) w2\<rparr>)"

text \<open>The closure \<open>proxy.ModifyResponse\<close> of \<open>NewServiceProxy\<close>.\<close>

definition ModifyResponse :: "string \<Rightarrow> Response \<Rightarrow> Context \<Rightarrow> (error + Response) \<times> Context" where
  "ModifyResponse targetURL resp c =
     (let c1 = LogInfo ''Service response''
                 [''url'' \<mapsto> JStr targetURL,
                  ''method'' \<mapsto> JStr (Method (Request c)),
                  ''path'' \<mapsto> JStr (Path (Request c)),
                  ''status'' \<mapsto> JInt (StatusCode resp),
                  ''status_text'' \<mapsto> JStr (StatusText resp)] c
      in if StatusCode resp \<ge> 400
         then (case ReadAll (Body resp) of
                 ((bytes, Some e), drained) \<Rightarrow>
                   (Inl (NewInternalError ''Failed to read error response'' (PlainError e)), c1)
               | ((bytes, None), drained) \<Rightarrow>
                   (let c2 = LogError (PlainError (''service returned error: '' @ StatusText resp))
                               [''url'' \<mapsto> JStr targetURL,
                                ''method'' \<mapsto> JStr (Method (Request c)),
                                ''path'' \<mapsto> JStr (Path (Request c)),
                                ''status_code'' \<mapsto> JInt (StatusCode resp),
                                ''response_body'' \<mapsto> JStr bytes] c1
                    in (Inr (resp\<lparr>Body := NewReader bytes\<rparr>), c2)))
         else (Inr resp, c1))"

text \<open>
  \<open>httputil.ReverseProxy.ServeHTTP\<close> as the two closures see it: a failed round
  trip or a failed \<open>ModifyResponse\<close> goes to the error handler; otherwise the
  status is written and the body copied to the client, and a body stream that
  breaks during the copy aborts the handler by a panic. The request sent out is
  taken to be the inbound one: the director's rewriting of scheme and host and the
  upstream's response headers are not part of the model.
\<close>

definition ErrAbortHandler :: string where
  "ErrAbortHandler = ''net/http: abort Handler''"

definition copyResponse :: "body_stream \<Rightarrow> responseWriter \<Rightarrow> responseWriter \<times> string option" where
  "copyResponse b w =
     (case ReadAll b of
        ((bytes, err), drained) \<Rightarrow> ((if bytes = [] then w else Write (Bytes bytes) w), err))"

definition proxy_ServeHTTP :: "ServiceProxy \<Rightarrow> (http_request \<Rightarrow> upstream) \<Rightarrow> HandlerFunc" where
  "proxy_ServeHTTP p backend c =
     (case RoundTrip (timeout p) (backend (Request c)) of
        (elapsed, res) \<Rightarrow>
          (let c0 = c\<lparr>clock := clock c + int elapsed,
                      outbound := outbound c @ [(target p, Request c)]\<rparr>
           in case res of
                Inl err \<Rightarrow> Normal (ErrorHandler (target p) err c0)
              | Inr resp \<Rightarrow>
                  (case ModifyResponse (target p) resp c0 of
                     (Inl err, c1) \<Rightarrow> Normal (ErrorHandler (target p) err c1)
                   | (Inr resp', c1) \<Rightarrow>
                       (case copyResponse (Body resp') (WriteHeader (StatusCode resp') (Writer c1)) of
                          (w, None) \<Rightarrow> Normal (c1\<lparr>Writer := w\<rparr>)
                        | (w, Some e) \<Rightarrow> Panic ErrAbortHandler (c1\<lparr>Writer := w\<rparr>)))))"

text \<open>\<open>ServiceProxy.Handler\<close>; \<open>backend\<close> is the service listening at the target.\<close>

definition Handler :: "ServiceProxy \<Rightarrow> (http_request \<Rightarrow> upstream) \<Rightarrow> HandlerFunc" where
  "Handler p backend c =
     (let c1 = LogInfo ''Proxying request''
                 [''url'' \<mapsto> JStr (target p),
                  ''method'' \<mapsto> JStr (Method (Request c)),
                  ''path'' \<mapsto> JStr (Path (Request c)),
                  ''query'' \<mapsto> JStr (RawQuery (Request c))] c
      in case proxy_ServeHTTP p backend c1 of
           Panic v c2 \<Rightarrow> Panic v c2
         | Normal c2 \<Rightarrow>
             Normal (LogInfo ''Request completed''
                       [''url'' \<mapsto> JStr (target p),
                        ''method'' \<mapsto> JStr (Method (Request c2)),
                        ''path'' \<mapsto> JStr (Path (Request c2)),
                        ''status_code'' \<mapsto> JInt (status (Writer c2)),
                        ''client_ip'' \<mapsto> JStr (ClientIP c2)] c2))"

definition HealthCheck :: "Context \<Rightarrow> Context" where
  "HealthCheck c =
     c_JSON StatusOK
       [''status'' \<mapsto> JStr ''healthy'',
        ''timestamp'' \<mapsto> JInt (clock c),
        ''service'' \<mapsto> JStr ''api-gateway'',
        ''version'' \<mapsto> JStr ''1.0.0''] c"

definition NotFoundHandler :: "Context \<Rightarrow> Context" where
  "NotFoundHandler c =
     c_JSON StatusNotFound
       [''error'' \<mapsto> JStr ''Endpoint not found'',
        ''code'' \<mapsto> JInt StatusNotFound,
        ''path'' \<mapsto> JStr (Path (Request c))] c"

definition MethodNotAllowedHandler :: "Context \<Rightarrow> Context" where
  "MethodNotAllowedHandler c =
     c_JSON StatusMethodNotAllowed
       [''error'' \<mapsto> JStr ''Method not allowed'',
        ''code'' \<mapsto> JInt StatusMethodNotAllowed,
        ''method'' \<mapsto> JStr (Method (Request c)),
        ''path'' \<mapsto> JStr (Path (Request c))] c"

section \<open>The router (gin's engine as cmd/main.go configures it)\<close>

text \<open>
  \<open>c.Next()\<close> runs the remaining handlers in order and stops once the context is
  aborted. A handler that never calls \<open>c.Next()\<close> itself returns to that loop,
  which goes on with the handler after it.
\<close>

primrec Next :: "middleware list \<Rightarrow> HandlerFunc" where
  "Next [] = (\<lambda>c. Normal c)"
| "Next (h # hs) = (\<lambda>c. if aborted c then Normal c else h (Next hs) c)"

definition plain :: "(Context \<Rightarrow> Context) \<Rightarrow> middleware" where
  "plain f next c = next (f c)"

definition leaf :: "HandlerFunc \<Rightarrow> middleware" where
  "leaf f next c = (case f c of Normal c' \<Rightarrow> next c' | Panic v c' \<Rightarrow> Panic v c')"

text \<open>
  The engine's switches with the values \<open>gin.New()\<close> gives them; \<open>main\<close> changes
  neither. \<open>router.NoMethod\<close> registers handlers that the engine calls only when
  \<open>HandleMethodNotAllowed\<close> is set.
\<close>

record Engine =
  RedirectTrailingSlash :: bool
  HandleMethodNotAllowed :: bool

definition gin_New :: Engine where
  "gin_New = \<lparr>RedirectTrailingSlash = True, HandleMethodNotAllowed = False\<rparr>"

text \<open>
  A route pattern matches a path segment by segment; a segment \<open>:name\<close> of the
  pattern matches any non-empty segment.
\<close>

definition match_segment :: "string \<Rightarrow> string \<Rightarrow> bool" where
  "match_segment pat seg =
     (if pat \<noteq> [] \<and> hd pat = CHR '':'' then seg \<noteq> [] else pat = seg)"

definition match_path :: "string \<Rightarrow> string \<Rightarrow> bool" where
  "match_path pattern path =
     list_all2 match_segment (Split pattern CHR ''/'') (Split path CHR ''/'')"

type_synonym route = "string \<times> string \<times> middleware list"

definition lookup :: "route list \<Rightarrow> string \<Rightarrow> string \<Rightarrow> middleware list option" where
  "lookup routes httpMethod rPath =
     map_option (\<lambda>(m, pat, hs). hs)
       (find (\<lambda>(m, pat, hs). m = httpMethod \<and> match_path pat rPath) routes)"

definition allowed :: "route list \<Rightarrow> string \<Rightarrow> string \<Rightarrow> string list" where
  "allowed routes httpMethod rPath =
     remdups (map fst (filter (\<lambda>(m, pat, hs). m \<noteq> httpMethod \<and> match_path pat rPath) routes))"

fun Join :: "string list \<Rightarrow> string \<Rightarrow> string" where
  "Join [] sep = []"
| "Join [x] sep = x"
| "Join (x # y # ys) sep = x @ sep @ Join (y # ys) sep"

definition toggle_slash :: "string \<Rightarrow> string" where
  "toggle_slash p = (if length p > 1 \<and> last p = CHR ''/'' then butlast p else p @ ''/'')"

definition default404Body :: string where "default404Body = ''404 page not found''"
definition default405Body :: string where "default405Body = ''405 method not allowed''"

definition serveError :: "int \<Rightarrow> string \<Rightarrow> middleware list \<Rightarrow> HandlerFunc" where
  "serveError code defaultMessage handlers c =
     (case Next handlers (c\<lparr>Writer := (Writer c)\<lparr>status := code\<rparr>\<rparr>) of
        Panic v c' \<Rightarrow> Panic v c'
      | Normal c' \<Rightarrow>
          (if written (Writer c') then Normal c'
           else if status (Writer c') = code
           then Normal (c'\<lparr>Writer := Write (Bytes defaultMessage)
                                      (Header_Set ''Content-Type'' ''text/plain'' (Writer c'))\<rparr>)
           else Normal (c'\<lparr>Writer := WriteHeaderNow (Writer c')\<rparr>)))"

text \<open>
  The redirect to the path with the trailing slash toggled, sent without running any
  handler (the short HTML note \<open>http.Redirect\<close> adds for GET is left out).
\<close>

definition redirectTrailingSlash :: "Context \<Rightarrow> Context" where
  "redirectTrailingSlash c =
     (let code = (if Method (Request c) \<noteq> ''GET'' then 307 else 301);
          w = Header_Set ''Location'' (toggle_slash (Path (Request c))) (Writer c)
      in c\<lparr>Writer := WriteHeaderNow (WriteHeader code w)\<rparr>)"

definition handleHTTPRequest ::
  "Engine \<Rightarrow> route list \<Rightarrow> middleware list \<Rightarrow> middleware list \<Rightarrow> HandlerFunc" where
  "handleHTTPRequest engine routes allNoRoute allNoMethod c =
     (let httpMethod = Method (Request c);
          rPath = Path (Request c)
      in case lookup routes httpMethod rPath of
           Some handlers \<Rightarrow>
             (case Next handlers c of
                Panic v c' \<Rightarrow> Panic v c'
              | Normal c' \<Rightarrow> Normal (c'\<lparr>Writer := WriteHeaderNow (Writer c')\<rparr>))
         | None \<Rightarrow>
             (if httpMethod \<noteq> ''CONNECT'' \<and> rPath \<noteq> ''/'' \<and> RedirectTrailingSlash engine
                 \<and> lookup routes httpMethod (toggle_slash rPath) \<noteq> None
              then Normal (redirectTrailingSlash c)
              else if HandleMethodNotAllowed engine \<and> allowed routes httpMethod rPath \<noteq> []
              then serveError StatusMethodNotAllowed default405Body allNoMethod
                     (c\<lparr>Writer := Header_Set ''Allow''
                          (Join (allowed routes httpMethod rPath) '', '')
                          (Writer c)\<rparr>)
              else serveError StatusNotFound default404Body allNoRoute c))"

text \<open>
  \<open>main\<close>: the global middleware, the routes and the two fallbacks. What lies
  outside the gateway is given per request: the stack text of a recovered panic, the
  UUID string that would be generated, the CORS middleware built from the
  configuration, and the two backends.
\<close>

record Config =
  JWTSecret :: string
  authProxy :: ServiceProxy
  productsProxy :: ServiceProxy

record Env =
  debug_Stack :: string
  uuid_String :: string
  cors :: middleware
  authBackend :: "http_request \<Rightarrow> upstream"
  productsBackend :: "http_request \<Rightarrow> upstream"

definition global :: "Env \<Rightarrow> middleware list" where
  "global env =
     [RecoveryMiddleware (debug_Stack env), RequestIDMiddleware (uuid_String env),
      LoggingMiddleware, cors env]"

definition routes :: "Config \<Rightarrow> Env \<Rightarrow> route list" where
  "routes cfg env =
     (let auth = global env @ [leaf (Handler (authProxy cfg) (authBackend env))];
          products = global env @ [AuthMiddleware (JWTSecret cfg),
                                   leaf (Handler (productsProxy cfg) (productsBackend env))]
      in [(''GET'', ''/health'', global env @ [plain HealthCheck]),
          (''POST'', ''/api/v1/auth/register'', auth),
          (''POST'', ''/api/v1/auth/login'', auth),
          (''GET'', ''/api/v1/products'', products),
          (''GET'', ''/api/v1/products/:id'', products),
          (''POST'', ''/api/v1/products'', products),
          (''PUT'', ''/api/v1/products/:id'', products),
          (''DELETE'', ''/api/v1/products/:id'', products)])"

definition router :: "Config \<Rightarrow> Env \<Rightarrow> HandlerFunc" where
  "router cfg env =
     handleHTTPRequest gin_New (routes cfg env)
       (global env @ [plain NotFoundHandler])
       (global env @ [plain MethodNotAllowedHandler])"

section \<open>Notions used by the properties\<close>

text \<open>
  The context an outcome carries, and a response to which nothing has been written.
\<close>

fun ctx_of :: "outcome \<Rightarrow> Context" where
  "ctx_of (Normal c) = c"
| "ctx_of (Panic v c) = c"

definition unwritten :: "responseWriter \<Rightarrow> bool" where
  "unwritten w = (\<not> written w \<and> body w = [])"

text \<open>The \<open>error\<close> member of a response that is one JSON object.\<close>

definition error_field :: "responseWriter \<Rightarrow> jval option" where
  "error_field w = (case body w of [JSON obj] \<Rightarrow> obj ''error'' | _ \<Rightarrow> None)"





section \<open>Concrete requests, configurations and backends\<close>

text \<open>The inputs at which the properties below are instantiated.\<close>

definition sample_request :: "string \<Rightarrow> string \<Rightarrow> (string \<rightharpoonup> string) \<Rightarrow> http_request" where
  "sample_request m p hs =
     \<lparr>Method = m, Path = p, RawQuery = [], Header = hs, RemoteIP = ''203.0.113.7''\<rparr>"

definition no_auth_ctx :: Context where
  "no_auth_ctx = new_context (sample_request ''GET'' ''/api/v1/products'' Map.empty) 0"

definition empty_auth_ctx :: Context where
  "empty_auth_ctx = new_context (sample_request ''GET'' ''/api/v1/products'' [''Authorization'' \<mapsto> []]) 0"

definition basic_auth_ctx :: Context where
  "basic_auth_ctx = new_context (sample_request ''GET'' ''/api/v1/products'' [''Authorization'' \<mapsto> ''Basic dXNlcg==='']) 0"

definition short_token_ctx :: Context where
  "short_token_ctx = new_context (sample_request ''GET'' ''/api/v1/products/123'' [''Authorization'' \<mapsto> ''Bearer abc'']) 0"

definition good_token_ctx :: Context where
  "good_token_ctx = new_context (sample_request ''GET'' ''/api/v1/products/123'' [''Authorization'' \<mapsto> ''Bearer 0123456789abcdef'']) 0"




definition sample_proxy :: ServiceProxy where
  "sample_proxy = \<lparr>target = ''http://products:8082'', timeout = 5\<rparr>"


definition unavailable_503 :: Response where
  "unavailable_503 = \<lparr>StatusCode = 503, StatusText = ''503 Service Unavailable'',
     Body = \<lparr>pending = ''{\"error\":\"db down\"}'', fault = None\<rparr>\<rparr>"

definition sample_config :: Config where
  "sample_config =
     \<lparr>JWTSecret = ''s3cret'',
      authProxy = \<lparr>target = ''http://auth:8081'', timeout = 5\<rparr>,
      productsProxy = sample_proxy\<rparr>"

definition quiet_env :: Env where
  "quiet_env =
     \<lparr>debug_Stack = ''goroutine 7 [running]'',
      uuid_String = ''6ba7b810-9dad-41d1-80b4-00c04fd430c8'',
      cors = (\<lambda>next c. next c),
      authBackend = (\<lambda>r. Silent),
      productsBackend = (\<lambda>r. Silent)\<rparr>"

definition panicking_env :: Env where
  "panicking_env = quiet_env\<lparr>cors := (\<lambda>next c. Panic ''boom'' c)\<rparr>"

definition health_ctx :: Context where
  "health_ctx = new_context (sample_request ''GET'' ''/health'' Map.empty) 0"

definition wrong_method_ctx :: Context where
  "wrong_method_ctx = new_context (sample_request ''GET'' ''/api/v1/auth/login'' Map.empty) 0"

definition nope_ctx :: Context where
  "nope_ctx = new_context (sample_request ''GET'' ''/nope'' Map.empty) 0"

definition login_ctx :: Context where
  "login_ctx = new_context (sample_request ''POST'' ''/api/v1/auth/login'' Map.empty) 0"

definition token_200 :: Response where
  "token_200 = \<lparr>StatusCode = 200, StatusText = ''200 OK'',
     Body = \<lparr>pending = ''{\"token\":\"t\"}'', fault = None\<rparr>\<rparr>"

definition serving_env :: Env where
  "serving_env = quiet_env\<lparr>authBackend := (\<lambda>r. Replies 1 token_200),
                            productsBackend := (\<lambda>r. Replies 2 unavailable_503)\<rparr>"

section \<open>Properties\<close>

subsection \<open>Token validation\<close>

lemma validateToken_short:
  "length tok < 10 \<Longrightarrow> \<exists>e. validateToken tok secret = Err e"
  by (simp add: validateToken_def)

lemma validateToken_long:
  "10 \<le> length tok \<Longrightarrow> validateToken tok secret = Ok (''user-'' @ take 8 tok)"
  by (auto simp: validateToken_def slice_to_def)

text \<open>
  C10. The prefix slice \<open>tokenString[:8]\<close> is evaluated only for tokens of length at
  least 10, so it is within bounds, and \<open>validateToken\<close> panics for no input: every
  call returns either an error or the principal id built from the first 8 bytes.
\<close>

theorem validateToken_never_panics:
  "validateToken tok secret \<noteq> Panicked p \<and>
   (validateToken tok secret = Ok u \<longrightarrow>
      10 \<le> length tok \<and> slice_to tok 8 = Ok (take 8 tok) \<and> u = ''user-'' @ take 8 tok) \<and>
   (length tok < 10 \<longrightarrow> (\<exists>e. validateToken tok secret = Err e))"
  by (auto simp: validateToken_def slice_to_def)

theorem validateToken_never_panics_witness:
  "validateToken ''0123456789abc'' ''s3cret'' \<noteq> Panicked ''slice bounds out of range'' \<and>
   validateToken ''0123456789abc'' ''s3cret'' = Ok ''user-01234567'' \<and>
   10 \<le> length ''0123456789abc'' \<and>
   validateToken ''abc'' ''s3cret'' = Err (NewUnauthorizedError ''Invalid token format'')"
  using validateToken_never_panics [of "''0123456789abc''" "''s3cret''" "''slice bounds out of range''" "''user-01234567''"]
  by (simp add: validateToken_def slice_to_def)

subsection \<open>The Auth Gate\<close>

lemma Split_nonempty: "Split s sep \<noteq> []"
  by (induction s) (auto split: list.splits)

lemma Split_no_sep: "sep \<notin> set s \<Longrightarrow> Split s sep = [s]"
  by (induction s) auto

lemma Split_at_sep: "sep \<notin> set p \<Longrightarrow> Split (p @ sep # t) sep = p # Split t sep"
  by (induction p) auto

lemma Split_cases:
  "(sep \<notin> set s \<and> Split s sep = [s]) \<or>
   (\<exists>p t. s = p @ sep # t \<and> sep \<notin> set p \<and> Split s sep = p # Split t sep)"
proof (cases "sep \<in> set s")
  case False
  then show ?thesis by (simp add: Split_no_sep)
next
  case True
  then obtain p t where "s = p @ sep # t" "sep \<notin> set p"
    by (meson split_list_first)
  then show ?thesis using Split_at_sep by blast
qed

lemma Split_two:
  "(length (Split s sep) = 2 \<and> Split s sep ! 0 = p) \<longleftrightarrow>
   (\<exists>t. s = p @ sep # t \<and> sep \<notin> set p \<and> sep \<notin> set t)"
proof
  assume L: "length (Split s sep) = 2 \<and> Split s sep ! 0 = p"
  from Split_cases [of sep s] L obtain p' t where
    s: "s = p' @ sep # t" "sep \<notin> set p'" "Split s sep = p' # Split t sep"
    by auto
  with L have p: "p' = p" and len: "length (Split t sep) = 1" by auto
  from Split_cases [of sep t] len have "sep \<notin> set t"
    using Split_nonempty [of _ sep] by (auto simp: length_Suc_conv)
  with s p show "\<exists>t. s = p @ sep # t \<and> sep \<notin> set p \<and> sep \<notin> set t" by blast
next
  assume "\<exists>t. s = p @ sep # t \<and> sep \<notin> set p \<and> sep \<notin> set t"
  then show "length (Split s sep) = 2 \<and> Split s sep ! 0 = p"
    by (auto simp: Split_at_sep Split_no_sep)
qed

lemma Split_bearer:
  "CHR '' '' \<notin> set tok \<Longrightarrow> Split (''Bearer '' @ tok) CHR '' '' = [''Bearer'', tok]"
  using Split_at_sep [of "CHR '' ''" "''Bearer''" tok] by (simp add: Split_no_sep)

lemma not_bearer_form:
  "\<not> (\<exists>tok. h = ''Bearer '' @ tok \<and> CHR '' '' \<notin> set tok) \<Longrightarrow>
   length (Split h CHR '' '') \<noteq> 2 \<or> Split h CHR '' '' ! 0 \<noteq> ''Bearer''"
  using Split_two [of h "CHR '' ''" "''Bearer''"] by auto

lemma c_JSON_unwritten:
  "unwritten (Writer c) \<Longrightarrow> 0 < code \<Longrightarrow> bodyAllowedForStatus code \<Longrightarrow>
   status (Writer (c_JSON code obj c)) = code \<and>
   body (Writer (c_JSON code obj c)) = [JSON obj] \<and>
   written (Writer (c_JSON code obj c))"
  by (auto simp: c_JSON_def unwritten_def Let_def Write_def WriteHeaderNow_def WriteHeader_def
      writeContentType_def Header_Set_def split: option.splits)

lemma c_JSON_frame:
  "Request (c_JSON code obj c) = Request c \<and> Keys (c_JSON code obj c) = Keys c \<and>
   log (c_JSON code obj c) = log c \<and> outbound (c_JSON code obj c) = outbound c \<and>
   clock (c_JSON code obj c) = clock c \<and> aborted (c_JSON code obj c) = aborted c"
  by (simp add: c_JSON_def Let_def)

lemma isPublicEndpoint_products [simp]:
  "\<not> isPublicEndpoint ''/api/v1/products''" "\<not> isPublicEndpoint ''/api/v1/products/123''"
  by (simp_all add: isPublicEndpoint_def publicEndpoints_def)

lemma unwritten_reset [simp]: "unwritten reset"
  by (simp add: unwritten_def reset_def)

lemma AuthMiddleware_no_header:
  assumes "\<not> isPublicEndpoint (Path (Request c))" and "GetHeader c ''Authorization'' = []"
  shows "AuthMiddleware secret next c =
         Normal (Abort (c_JSON StatusUnauthorized
           [''error'' \<mapsto> JStr ''Authorization header required'',
            ''code'' \<mapsto> JInt StatusUnauthorized] c))"
  using assms by (simp add: AuthMiddleware_def)

lemma AuthMiddleware_malformed:
  assumes "\<not> isPublicEndpoint (Path (Request c))" and "GetHeader c ''Authorization'' = h"
    and "h \<noteq> []" and "length (Split h CHR '' '') \<noteq> 2 \<or> Split h CHR '' '' ! 0 \<noteq> ''Bearer''"
  shows "AuthMiddleware secret next c =
         Normal (Abort (c_JSON StatusUnauthorized
           [''error'' \<mapsto> JStr ''Invalid authorization header format'',
            ''code'' \<mapsto> JInt StatusUnauthorized] c))"
  using assms by (auto simp: AuthMiddleware_def Let_def)

lemma AuthMiddleware_bearer:
  assumes "\<not> isPublicEndpoint (Path (Request c))"
    and "GetHeader c ''Authorization'' = ''Bearer '' @ tok" and "CHR '' '' \<notin> set tok"
  shows "AuthMiddleware secret next c =
         (if length tok < 10
          then Normal (Abort (c_JSON StatusUnauthorized
                 [''error'' \<mapsto> JStr ''Invalid or expired token'',
                  ''code'' \<mapsto> JInt StatusUnauthorized]
                 (emit WarnLevel ''Invalid token'' [''path'' \<mapsto> JStr (Path (Request c))] c)))
          else next (Set ''user_id'' (''user-'' @ take 8 tok) c))"
proof -
  have sp: "Split (GetHeader c ''Authorization'') CHR '' '' = [''Bearer'', tok]"
    using assms(2,3) Split_bearer by simp
  have ne: "GetHeader c ''Authorization'' \<noteq> []" using assms(2) by simp
  show ?thesis
  proof (cases "length tok < 10")
    case True
    then obtain e where "validateToken tok secret = Err e"
      using validateToken_short by blast
    with True assms(1) sp ne show ?thesis by (simp add: AuthMiddleware_def Let_def)
  next
    case False
    then have "validateToken tok secret = Ok (''user-'' @ take 8 tok)"
      using validateToken_long by simp
    with False assms(1) sp ne show ?thesis by (simp add: AuthMiddleware_def Let_def)
  qed
qed

lemma rejected_response:
  assumes "unwritten (Writer c)"
  shows "status (Writer (Abort (c_JSON StatusUnauthorized obj c))) = 401 \<and>
         body (Writer (Abort (c_JSON StatusUnauthorized obj c))) = [JSON obj] \<and>
         aborted (Abort (c_JSON StatusUnauthorized obj c)) \<and>
         outbound (Abort (c_JSON StatusUnauthorized obj c)) = outbound c \<and>
         log (Abort (c_JSON StatusUnauthorized obj c)) = log c"
  using c_JSON_unwritten [OF assms, of StatusUnauthorized obj] c_JSON_frame [of StatusUnauthorized obj c]
  by (simp add: Abort_def StatusUnauthorized_def bodyAllowedForStatus_def)

text \<open>
  C4 (as amended). On a protected path, with nothing written yet: when the
  \<open>Authorization\<close> header is absent or empty the response is 401 with
  \<open>{"error":"Authorization header required","code":401}\<close>; when it is non-empty
  but not of the two-part form \<open>Bearer <token>\<close> the response is 401 with
  \<open>{"error":"Invalid authorization header format","code":401}\<close>. In both cases the
  chain is aborted and the rest of it is not run, whatever it is (\<open>next\<close> and
  \<open>next'\<close> give the same result), so no request goes to an upstream.
\<close>

theorem AuthMiddleware_rejects_missing_or_malformed:
  assumes "\<not> isPublicEndpoint (Path (Request c))" and "unwritten (Writer c)"
  shows "(Header (Request c) ''Authorization'' = None \<or> Header (Request c) ''Authorization'' = Some [] \<longrightarrow>
            (\<exists>c'. AuthMiddleware secret next c = Normal c' \<and>
                  AuthMiddleware secret next' c = Normal c' \<and>
                  status (Writer c') = 401 \<and>
                  body (Writer c') = [JSON [''error'' \<mapsto> JStr ''Authorization header required'',
                                            ''code'' \<mapsto> JInt 401]] \<and>
                  aborted c' \<and> outbound c' = outbound c)) \<and>
         (\<forall>h. Header (Request c) ''Authorization'' = Some h \<and> h \<noteq> [] \<and>
               \<not> (\<exists>tok. h = ''Bearer '' @ tok \<and> CHR '' '' \<notin> set tok) \<longrightarrow>
            (\<exists>c'. AuthMiddleware secret next c = Normal c' \<and>
                  AuthMiddleware secret next' c = Normal c' \<and>
                  status (Writer c') = 401 \<and>
                  body (Writer c') = [JSON [''error'' \<mapsto> JStr ''Invalid authorization header format'',
                                            ''code'' \<mapsto> JInt 401]] \<and>
                  aborted c' \<and> outbound c' = outbound c))"
proof (intro conjI impI allI)
  assume "Header (Request c) ''Authorization'' = None \<or> Header (Request c) ''Authorization'' = Some []"
  then have g: "GetHeader c ''Authorization'' = []" by (auto simp: GetHeader_def)
  show "\<exists>c'. AuthMiddleware secret next c = Normal c' \<and>
                  AuthMiddleware secret next' c = Normal c' \<and>
                  status (Writer c') = 401 \<and>
                  body (Writer c') = [JSON [''error'' \<mapsto> JStr ''Authorization header required'',
                                            ''code'' \<mapsto> JInt 401]] \<and>
                  aborted c' \<and> outbound c' = outbound c"
    using AuthMiddleware_no_header [OF assms(1) g] rejected_response [OF assms(2)]
    by (simp add: StatusUnauthorized_def)
next
  fix h
  assume a: "Header (Request c) ''Authorization'' = Some h \<and> h \<noteq> [] \<and>
               \<not> (\<exists>tok. h = ''Bearer '' @ tok \<and> CHR '' '' \<notin> set tok)"
  then have g: "GetHeader c ''Authorization'' = h" by (simp add: GetHeader_def)
  from a have sp: "length (Split h CHR '' '') \<noteq> 2 \<or> Split h CHR '' '' ! 0 \<noteq> ''Bearer''"
    using not_bearer_form by blast
  show "\<exists>c'. AuthMiddleware secret next c = Normal c' \<and>
                  AuthMiddleware secret next' c = Normal c' \<and>
                  status (Writer c') = 401 \<and>
                  body (Writer c') = [JSON [''error'' \<mapsto> JStr ''Invalid authorization header format'',
                                            ''code'' \<mapsto> JInt 401]] \<and>
                  aborted c' \<and> outbound c' = outbound c"
    using AuthMiddleware_malformed [OF assms(1) g _ sp] a rejected_response [OF assms(2)]
    by (simp add: StatusUnauthorized_def)
qed

lemma not_bearer_basic: "\<not> (\<exists>tok. ''Basic dXNlcg==='' = ''Bearer '' @ tok \<and> CHR '' '' \<notin> set tok)"
  by simp

theorem AuthMiddleware_rejects_missing_or_malformed_witness:
  "\<not> isPublicEndpoint (Path (Request no_auth_ctx)) \<and> unwritten (Writer no_auth_ctx) \<and>
   Header (Request no_auth_ctx) ''Authorization'' = None \<and>
   status (Writer (ctx_of (AuthMiddleware ''s3cret'' Normal no_auth_ctx))) = 401 \<and>
   body (Writer (ctx_of (AuthMiddleware ''s3cret'' Normal no_auth_ctx))) =
     [JSON [''error'' \<mapsto> JStr ''Authorization header required'', ''code'' \<mapsto> JInt 401]] \<and>
   \<not> isPublicEndpoint (Path (Request basic_auth_ctx)) \<and> unwritten (Writer basic_auth_ctx) \<and>
   Header (Request basic_auth_ctx) ''Authorization'' = Some ''Basic dXNlcg==='' \<and>
   status (Writer (ctx_of (AuthMiddleware ''s3cret'' Normal basic_auth_ctx))) = 401 \<and>
   body (Writer (ctx_of (AuthMiddleware ''s3cret'' Normal basic_auth_ctx))) =
     [JSON [''error'' \<mapsto> JStr ''Invalid authorization header format'', ''code'' \<mapsto> JInt 401]]"
proof -
  have p1: "\<not> isPublicEndpoint (Path (Request no_auth_ctx))" "unwritten (Writer no_auth_ctx)"
    "Header (Request no_auth_ctx) ''Authorization'' = None"
    by (simp_all add: no_auth_ctx_def new_context_def sample_request_def)
  have p2: "\<not> isPublicEndpoint (Path (Request basic_auth_ctx))" "unwritten (Writer basic_auth_ctx)"
    "Header (Request basic_auth_ctx) ''Authorization'' = Some ''Basic dXNlcg===''"
    by (simp_all add: basic_auth_ctx_def new_context_def sample_request_def)
  from AuthMiddleware_rejects_missing_or_malformed [OF p1(1,2), of "''s3cret''" Normal Normal] p1(3)
  have a: "status (Writer (ctx_of (AuthMiddleware ''s3cret'' Normal no_auth_ctx))) = 401 \<and>
   body (Writer (ctx_of (AuthMiddleware ''s3cret'' Normal no_auth_ctx))) =
     [JSON [''error'' \<mapsto> JStr ''Authorization header required'', ''code'' \<mapsto> JInt 401]]"
    by auto
  from AuthMiddleware_rejects_missing_or_malformed [OF p2(1,2), of "''s3cret''" Normal Normal] p2(3) not_bearer_basic
  have b: "status (Writer (ctx_of (AuthMiddleware ''s3cret'' Normal basic_auth_ctx))) = 401 \<and>
   body (Writer (ctx_of (AuthMiddleware ''s3cret'' Normal basic_auth_ctx))) =
     [JSON [''error'' \<mapsto> JStr ''Invalid authorization header format'', ''code'' \<mapsto> JInt 401]]"
    by auto
  from p1 p2 a b show ?thesis by blast
qed

text \<open>
  C4 as stated fails for a header that is present with an empty value: it is not of
  the form \<open>Bearer <token>\<close>, yet the message is the one for a missing header,
  since \<open>c.GetHeader\<close> returns the empty string in both cases.
\<close>

theorem AuthMiddleware_empty_header_counterexample:
  "Header (Request empty_auth_ctx) ''Authorization'' = Some [] \<and>
   \<not> isPublicEndpoint (Path (Request empty_auth_ctx)) \<and>
   length (Split (GetHeader empty_auth_ctx ''Authorization'') CHR '' '') \<noteq> 2 \<and>
   status (Writer (ctx_of (AuthMiddleware ''s3cret'' Normal empty_auth_ctx))) = 401 \<and>
   error_field (Writer (ctx_of (AuthMiddleware ''s3cret'' Normal empty_auth_ctx))) =
     Some (JStr ''Authorization header required'') \<and>
   error_field (Writer (ctx_of (AuthMiddleware ''s3cret'' Normal empty_auth_ctx))) \<noteq>
     Some (JStr ''Invalid authorization header format'')"
  by (simp add: empty_auth_ctx_def new_context_def sample_request_def AuthMiddleware_def
      GetHeader_def error_field_def c_JSON_def Abort_def Let_def reset_def WriteHeader_def
      Write_def WriteHeaderNow_def writeContentType_def Header_Set_def bodyAllowedForStatus_def
      StatusUnauthorized_def defaultStatus_def StatusOK_def)

text \<open>
  C5. On a protected path, with nothing written yet and a header \<open>Bearer <token>\<close>
  (one space, none inside the token): an empty token or one shorter than 10 bytes
  gives 401 with \<open>{"error":"Invalid or expired token","code":401}\<close>, one warning
  event carrying the path, an aborted chain and no upstream call; any other token is
  admitted, the principal id \<open>user-\<close> followed by the first 8 bytes of the token is
  stored under \<open>user_id\<close>, and the rest of the chain runs on that context.
\<close>

theorem AuthMiddleware_token_check:
  assumes "\<not> isPublicEndpoint (Path (Request c))" and "unwritten (Writer c)"
    and "Header (Request c) ''Authorization'' = Some (''Bearer '' @ tok)"
    and "CHR '' '' \<notin> set tok"
  shows "(tok = [] \<or> length tok < 10 \<longrightarrow>
            (\<exists>c'. AuthMiddleware secret next c = Normal c' \<and>
                  AuthMiddleware secret next' c = Normal c' \<and>
                  status (Writer c') = 401 \<and>
                  body (Writer c') = [JSON [''error'' \<mapsto> JStr ''Invalid or expired token'',
                                            ''code'' \<mapsto> JInt 401]] \<and>
                  log c' = log c @ [\<lparr>level = WarnLevel, message = ''Invalid token'',
                                     attrs = [''path'' \<mapsto> JStr (Path (Request c))]\<rparr>] \<and>
                  aborted c' \<and> outbound c' = outbound c)) \<and>
         (\<not> (tok = [] \<or> length tok < 10) \<longrightarrow>
            AuthMiddleware secret next c =
              next (c\<lparr>Keys := (Keys c)(''user_id'' \<mapsto> ''user-'' @ take 8 tok)\<rparr>))"
proof -
  have g: "GetHeader c ''Authorization'' = ''Bearer '' @ tok"
    using assms(3) by (simp add: GetHeader_def)
  note b = AuthMiddleware_bearer [OF assms(1) g assms(4)]
  have w: "unwritten (Writer (emit WarnLevel ''Invalid token'' [''path'' \<mapsto> JStr (Path (Request c))] c))"
    using assms(2) by (simp add: emit_def)
  show ?thesis
  proof (cases "length tok < 10")
    case True
    with b rejected_response [OF w] show ?thesis
      by (auto simp: StatusUnauthorized_def emit_def)
  next
    case False
    with b show ?thesis by (auto simp: Set_def)
  qed
qed

theorem AuthMiddleware_token_check_witness:
  "\<not> isPublicEndpoint (Path (Request short_token_ctx)) \<and> unwritten (Writer short_token_ctx) \<and>
   Header (Request short_token_ctx) ''Authorization'' = Some (''Bearer '' @ ''abc'') \<and>
   CHR '' '' \<notin> set ''abc'' \<and> length ''abc'' < 10 \<and>
   status (Writer (ctx_of (AuthMiddleware ''s3cret'' (\<lambda>c. Panic ''upstream reached'' c) short_token_ctx))) = 401 \<and>
   AuthMiddleware ''s3cret'' (\<lambda>c. Panic ''upstream reached'' c) short_token_ctx =
     AuthMiddleware ''s3cret'' Normal short_token_ctx \<and>
   \<not> isPublicEndpoint (Path (Request good_token_ctx)) \<and> unwritten (Writer good_token_ctx) \<and>
   Header (Request good_token_ctx) ''Authorization'' = Some (''Bearer '' @ ''0123456789abcdef'') \<and>
   CHR '' '' \<notin> set ''0123456789abcdef'' \<and> \<not> (''0123456789abcdef'' = [] \<or> length ''0123456789abcdef'' < 10) \<and>
   AuthMiddleware ''s3cret'' Normal good_token_ctx =
     Normal (good_token_ctx\<lparr>Keys := (Keys good_token_ctx)(''user_id'' \<mapsto> ''user-01234567'')\<rparr>)"
proof -
  have p1: "\<not> isPublicEndpoint (Path (Request short_token_ctx))" "unwritten (Writer short_token_ctx)"
    "Header (Request short_token_ctx) ''Authorization'' = Some (''Bearer '' @ ''abc'')"
    "CHR '' '' \<notin> set ''abc''"
    by (simp_all add: short_token_ctx_def new_context_def sample_request_def)
  have p2: "\<not> isPublicEndpoint (Path (Request good_token_ctx))" "unwritten (Writer good_token_ctx)"
    "Header (Request good_token_ctx) ''Authorization'' = Some (''Bearer '' @ ''0123456789abcdef'')"
    "CHR '' '' \<notin> set ''0123456789abcdef''"
    by (simp_all add: good_token_ctx_def new_context_def sample_request_def)
  have a: "status (Writer (ctx_of (AuthMiddleware ''s3cret'' (\<lambda>c. Panic ''upstream reached'' c) short_token_ctx))) = 401 \<and>
   AuthMiddleware ''s3cret'' (\<lambda>c. Panic ''upstream reached'' c) short_token_ctx =
     AuthMiddleware ''s3cret'' Normal short_token_ctx"
    using AuthMiddleware_token_check [OF p1, of "''s3cret''" "\<lambda>c. Panic ''upstream reached'' c" Normal]
    by auto
  have b: "AuthMiddleware ''s3cret'' Normal good_token_ctx =
     Normal (good_token_ctx\<lparr>Keys := (Keys good_token_ctx)(''user_id'' \<mapsto> ''user-01234567'')\<rparr>)"
    using AuthMiddleware_token_check [OF p2, of "''s3cret''" Normal Normal]
    by simp
  from p1 p2 a b show ?thesis by auto
qed

subsection \<open>The Correlation Stamper\<close>





subsection \<open>The Access Logger\<close>




subsection \<open>The Upstream Proxy\<close>

lemma RoundTrip_error_iff:
  "(\<exists>elapsed err. RoundTrip tmo u = (elapsed, Inl err)) \<longleftrightarrow>
   (case u of Replies t r \<Rightarrow> tmo \<le> int t | Fails t e \<Rightarrow> True | Silent \<Rightarrow> True)"
  by (auto simp: RoundTrip_def split: upstream.splits)













subsection \<open>The Panic Guard\<close>

lemmas gin_defs =
  c_JSON_def Let_def GetHeader_def SetHeader_def Set_def reset_def Header_Set_def Header_Del_def
  WriteHeader_def WriteHeaderNow_def Write_def writeContentType_def bodyAllowedForStatus_def
  emit_def defaultStatus_def StatusOK_def Abort_def ClientIP_def UserAgent_def GetString_def
  new_context_def sample_request_def

lemmas chain_defs =
  global_def RecoveryMiddleware_def RequestIDMiddleware_def LoggingMiddleware_def GinLogger_def
  plain_def leaf_def

lemma status_never_zero:
  "status reset \<noteq> 0" "status w \<noteq> 0 \<Longrightarrow> status (WriteHeader code w) \<noteq> 0"
  "status (WriteHeaderNow w) = status w" "status (Write d w) = status w"
  "status (Header_Set k v w) = status w"
  by (auto simp: reset_def defaultStatus_def StatusOK_def WriteHeader_def WriteHeaderNow_def
      Write_def Header_Set_def Let_def)

lemma RecoveryMiddleware_recovers:
  "\<exists>c''. RecoveryMiddleware stack next c = Normal c''"
  by (simp add: RecoveryMiddleware_def Let_def split: outcome.splits)

lemma RecoveryMiddleware_logs:
  assumes "next c = Panic v c'"
  shows "log (ctx_of (RecoveryMiddleware stack next c)) =
           log c' @ [\<lparr>level = ErrorLevel, message = ''Panic recovered'',
                       attrs = [''error'' \<mapsto> JStr v, ''stack'' \<mapsto> JStr stack,
                                ''path'' \<mapsto> JStr (Path (Request c')),
                                ''method'' \<mapsto> JStr (Method (Request c')),
                                ''client_ip'' \<mapsto> JStr (ClientIP c'),
                                ''user_agent'' \<mapsto> JStr (UserAgent c')]\<rparr>]"
  using assms by (simp add: RecoveryMiddleware_def Let_def emit_def Abort_def c_JSON_def)

lemma RecoveryMiddleware_status_nonzero:
  assumes "next c = Panic v c'" and "status (Writer c') \<noteq> 0"
  shows "Writer (ctx_of (RecoveryMiddleware stack next c)) = Writer c'"
  using assms by (simp add: RecoveryMiddleware_def Let_def emit_def Abort_def)

text \<open>
  C1 at a failing input. The rest of the chain panics before anything is written.
  The guard recovers and logs the fault, but \<open>c.Writer.Status()\<close> is 200 on a writer
  nothing was written to, not 0, so the 500 envelope is not written: the context the
  guard returns has status 200 and no body, and that is what the router sends.
\<close>

theorem RecoveryMiddleware_writes_no_envelope:
  "unwritten (Writer health_ctx) \<and>
   status (Writer (ctx_of (RecoveryMiddleware ''goroutine 7 [running]'' (Panic ''boom'') health_ctx))) = 200 \<and>
   body (Writer (ctx_of (RecoveryMiddleware ''goroutine 7 [running]'' (Panic ''boom'') health_ctx))) = [] \<and>
   \<not> written (Writer (ctx_of (RecoveryMiddleware ''goroutine 7 [running]'' (Panic ''boom'') health_ctx))) \<and>
   aborted (ctx_of (RecoveryMiddleware ''goroutine 7 [running]'' (Panic ''boom'') health_ctx)) \<and>
   status (Writer (ctx_of (router sample_config panicking_env health_ctx))) = 200 \<and>
   body (Writer (ctx_of (router sample_config panicking_env health_ctx))) = [] \<and>
   written (Writer (ctx_of (router sample_config panicking_env health_ctx))) \<and>
   map message (log (ctx_of (router sample_config panicking_env health_ctx))) = [''Panic recovered'']"
proof -
  have l: "lookup (routes sample_config panicking_env) ''GET'' ''/health'' =
           Some (global panicking_env @ [plain HealthCheck])"
    by (simp add: lookup_def routes_def match_path_def match_segment_def Let_def)
  have a: "unwritten (Writer health_ctx)"
    by (simp add: health_ctx_def new_context_def)
  have b: "status (Writer (ctx_of (RecoveryMiddleware ''goroutine 7 [running]'' (Panic ''boom'') health_ctx))) = 200 \<and>
   body (Writer (ctx_of (RecoveryMiddleware ''goroutine 7 [running]'' (Panic ''boom'') health_ctx))) = [] \<and>
   \<not> written (Writer (ctx_of (RecoveryMiddleware ''goroutine 7 [running]'' (Panic ''boom'') health_ctx))) \<and>
   aborted (ctx_of (RecoveryMiddleware ''goroutine 7 [running]'' (Panic ''boom'') health_ctx))"
    by (simp add: RecoveryMiddleware_def health_ctx_def gin_defs)
  have c: "status (Writer (ctx_of (router sample_config panicking_env health_ctx))) = 200 \<and>
   body (Writer (ctx_of (router sample_config panicking_env health_ctx))) = [] \<and>
   written (Writer (ctx_of (router sample_config panicking_env health_ctx))) \<and>
   map message (log (ctx_of (router sample_config panicking_env health_ctx))) = [''Panic recovered'']"
    apply (simp add: router_def handleHTTPRequest_def health_ctx_def new_context_def sample_request_def l)
    apply (simp add: chain_defs panicking_env_def quiet_env_def gin_defs)
    done
  from a b c show ?thesis by blast
qed

subsection \<open>The fallback handlers\<close>

lemma lookup_wrong_method:
  "lookup (routes cfg env) ''GET'' ''/api/v1/auth/login'' = None"
  "lookup (routes cfg env) ''GET'' (toggle_slash ''/api/v1/auth/login'') = None"
  "allowed (routes cfg env) ''GET'' ''/api/v1/auth/login'' = [''POST'']"
  by (simp_all add: lookup_def allowed_def routes_def match_path_def match_segment_def Let_def
      toggle_slash_def)

lemma lookup_nope:
  "lookup (routes cfg env) ''GET'' ''/nope'' = None"
  "lookup (routes cfg env) ''GET'' (toggle_slash ''/nope'') = None"
  by (simp_all add: lookup_def routes_def match_path_def match_segment_def Let_def toggle_slash_def)

lemma router_no_route:
  "status (Writer (ctx_of (router sample_config quiet_env nope_ctx))) = 404 \<and>
   body (Writer (ctx_of (router sample_config quiet_env nope_ctx))) =
     [JSON [''error'' \<mapsto> JStr ''Endpoint not found'', ''code'' \<mapsto> JInt 404,
            ''path'' \<mapsto> JStr ''/nope'']]"
  apply (simp add: router_def handleHTTPRequest_def nope_ctx_def new_context_def sample_request_def
      lookup_nope gin_New_def)
  apply (simp add: serveError_def chain_defs quiet_env_def NotFoundHandler_def StatusNotFound_def gin_defs)
  done

text \<open>
  C6 at a failing input. \<open>GET /api/v1/auth/login\<close>: the path is bound, for POST
  only. The engine built by \<open>gin.New()\<close> has \<open>HandleMethodNotAllowed\<close> off and
  \<open>main\<close> leaves it off, so the handlers given to \<open>router.NoMethod\<close> are never
  called: the request falls through to the not-found handlers and the response is the
  404 envelope with the path, not a 405 envelope with the method.
\<close>

theorem router_wrong_method_gets_404:
  "Method (Request wrong_method_ctx) = ''GET'' \<and> Path (Request wrong_method_ctx) = ''/api/v1/auth/login'' \<and>
   allowed (routes sample_config quiet_env) ''GET'' ''/api/v1/auth/login'' = [''POST''] \<and>
   status (Writer (ctx_of (router sample_config quiet_env wrong_method_ctx))) = 404 \<and>
   body (Writer (ctx_of (router sample_config quiet_env wrong_method_ctx))) =
     [JSON [''error'' \<mapsto> JStr ''Endpoint not found'', ''code'' \<mapsto> JInt 404,
            ''path'' \<mapsto> JStr ''/api/v1/auth/login'']]"
proof -
  have a: "Method (Request wrong_method_ctx) = ''GET'' \<and> Path (Request wrong_method_ctx) = ''/api/v1/auth/login''"
    by (simp add: wrong_method_ctx_def new_context_def sample_request_def)
  have b: "status (Writer (ctx_of (router sample_config quiet_env wrong_method_ctx))) = 404 \<and>
   body (Writer (ctx_of (router sample_config quiet_env wrong_method_ctx))) =
     [JSON [''error'' \<mapsto> JStr ''Endpoint not found'', ''code'' \<mapsto> JInt 404,
            ''path'' \<mapsto> JStr ''/api/v1/auth/login'']]"
    apply (simp add: router_def handleHTTPRequest_def wrong_method_ctx_def new_context_def
        sample_request_def lookup_wrong_method gin_New_def)
    apply (simp add: serveError_def chain_defs quiet_env_def NotFoundHandler_def StatusNotFound_def gin_defs)
    done
  from a b lookup_wrong_method(3) show ?thesis by blast
qed

lemma wrong_method_with_HandleMethodNotAllowed:
  "status (Writer (ctx_of (handleHTTPRequest (gin_New\<lparr>HandleMethodNotAllowed := True\<rparr>)
       (routes sample_config quiet_env)
       (global quiet_env @ [plain NotFoundHandler])
       (global quiet_env @ [plain MethodNotAllowedHandler]) wrong_method_ctx))) = 405 \<and>
   body (Writer (ctx_of (handleHTTPRequest (gin_New\<lparr>HandleMethodNotAllowed := True\<rparr>)
       (routes sample_config quiet_env)
       (global quiet_env @ [plain NotFoundHandler])
       (global quiet_env @ [plain MethodNotAllowedHandler]) wrong_method_ctx))) =
     [JSON [''error'' \<mapsto> JStr ''Method not allowed'', ''code'' \<mapsto> JInt 405,
            ''method'' \<mapsto> JStr ''GET'', ''path'' \<mapsto> JStr ''/api/v1/auth/login'']]"
  apply (simp add: handleHTTPRequest_def wrong_method_ctx_def new_context_def
      sample_request_def lookup_wrong_method gin_New_def)
  apply (simp add: serveError_def chain_defs quiet_env_def MethodNotAllowedHandler_def
      StatusMethodNotAllowed_def gin_defs)
  done

subsection \<open>The error envelopes\<close>








subsection \<open>Scenarios through the whole router\<close>

text \<open>
  The scenarios of the specification, run through \<open>router\<close> from a new context: a
  login without \<open>Authorization\<close> is forwarded and the upstream's 200 relayed; a
  product request with the token \<open>abc\<close> gets 401 and no request goes out; a
  product request with a valid token gets the upstream's 503 and its body.
\<close>

lemmas proxy_defs =
  Handler_def proxy_ServeHTTP_def RoundTrip_def ModifyResponse_def ErrorHandler_def
  copyResponse_def ReadAll_def NewReader_def LogInfo_def LogError_def ErrorResponse_def
  NewInternalError_def StatusInternalServerError_def DeadlineExceeded_def

lemma lookup_routes:
  "lookup (routes cfg env) ''POST'' ''/api/v1/auth/login'' =
     Some (global env @ [leaf (Handler (authProxy cfg) (authBackend env))])"
  "lookup (routes cfg env) ''GET'' ''/api/v1/products/123'' =
     Some (global env @ [AuthMiddleware (JWTSecret cfg),
                         leaf (Handler (productsProxy cfg) (productsBackend env))])"
  by (simp_all add: lookup_def routes_def match_path_def match_segment_def Let_def)

lemma scenario_login_relayed:
  "status (Writer (ctx_of (router sample_config serving_env login_ctx))) = 200 \<and>
   body (Writer (ctx_of (router sample_config serving_env login_ctx))) = [Bytes ''{\"token\":\"t\"}''] \<and>
   map fst (outbound (ctx_of (router sample_config serving_env login_ctx))) = [''http://auth:8081''] \<and>
   headers (Writer (ctx_of (router sample_config serving_env login_ctx))) ''X-Request-ID'' =
     Some ''6ba7b810-9dad-41d1-80b4-00c04fd430c8''"
  apply (simp add: router_def handleHTTPRequest_def login_ctx_def new_context_def sample_request_def
      lookup_routes)
  apply (simp add: chain_defs serving_env_def quiet_env_def sample_config_def token_200_def
      proxy_defs gin_defs)
  done

lemma scenario_short_token:
  "status (Writer (ctx_of (router sample_config serving_env short_token_ctx))) = 401 \<and>
   body (Writer (ctx_of (router sample_config serving_env short_token_ctx))) =
     [JSON [''error'' \<mapsto> JStr ''Invalid or expired token'', ''code'' \<mapsto> JInt 401]] \<and>
   outbound (ctx_of (router sample_config serving_env short_token_ctx)) = []"
  apply (simp add: router_def handleHTTPRequest_def short_token_ctx_def new_context_def
      sample_request_def lookup_routes)
  apply (simp add: chain_defs serving_env_def quiet_env_def sample_config_def
      AuthMiddleware_def isPublicEndpoint_def publicEndpoints_def validateToken_def
      NewUnauthorizedError_def StatusUnauthorized_def gin_defs)
  done

lemma scenario_upstream_503:
  "status (Writer (ctx_of (router sample_config serving_env good_token_ctx))) = 503 \<and>
   body (Writer (ctx_of (router sample_config serving_env good_token_ctx))) =
     [Bytes ''{\"error\":\"db down\"}''] \<and>
   map level (log (ctx_of (router sample_config serving_env good_token_ctx))) =
     [InfoLevel, InfoLevel, ErrorLevel, InfoLevel, ErrorLevel]"
  apply (simp add: router_def handleHTTPRequest_def good_token_ctx_def new_context_def
      sample_request_def lookup_routes)
  apply (simp add: chain_defs serving_env_def quiet_env_def sample_config_def sample_proxy_def
      unavailable_503_def AuthMiddleware_def isPublicEndpoint_def publicEndpoints_def
      validateToken_def slice_to_def proxy_defs gin_defs)
  done

end
